theory Spec2Isabelle
  imports Main
begin

section \<open>JavaScript values and the runtime functions the server relies on\<close>

text \<open>
  The server (\<^verbatim>\<open>src/index.ts\<close>) receives every argument object from a JSON-RPC message
  and every payload from \<^verbatim>\<open>response.json()\<close>, so the values it handles are JSON values.
  A value that may be \<^verbatim>\<open>undefined\<close> (a missing property, a missing argument object) is
  a \<open>json option\<close>, with \<open>None\<close> for \<^verbatim>\<open>undefined\<close>.  An object is the list of its own
  properties in enumeration order, each name occurring once.  Numbers are integers,
  printed in decimal, and strings are byte strings.  The argument object of a call is
  a \<open>jsobject option\<close>: the protocol allows a call without arguments.
\<close>

datatype json =
    JNull
  | JBool bool
  | JNum int
  | JStr string
  | JArr "json list"
  | JObj "(string \<times> json) list"

type_synonym jsobject = "(string \<times> json) list"

text \<open>Property access \<^verbatim>\<open>o.k\<close> and destructuring \<^verbatim>\<open>const { k } = o\<close> on an object.\<close>

definition get_prop :: "jsobject \<Rightarrow> string \<Rightarrow> json option" where
  "get_prop obj k = map_of obj k"

text \<open>Optional chaining \<^verbatim>\<open>params?.k\<close> on an object that may be \<^verbatim>\<open>undefined\<close>.\<close>

definition opt_prop :: "jsobject option \<Rightarrow> string \<Rightarrow> json option" where
  "opt_prop params k = (case params of None \<Rightarrow> None | Some obj \<Rightarrow> get_prop obj k)"

text \<open>Truthiness, as tested by \<^verbatim>\<open>if (v)\<close> and \<^verbatim>\<open>v || d\<close>.\<close>

fun truthy :: "json option \<Rightarrow> bool" where
  "truthy None = False"
| "truthy (Some JNull) = False"
| "truthy (Some (JBool b)) = b"
| "truthy (Some (JNum n)) = (n \<noteq> 0)"
| "truthy (Some (JStr s)) = (s \<noteq> [])"
| "truthy (Some (JArr xs)) = True"
| "truthy (Some (JObj kvs)) = True"

subsection \<open>Decimal and hexadecimal digits\<close>

definition digit_char :: "nat \<Rightarrow> char" where
  "digit_char d = char_of (48 + d)"

fun show_nat :: "nat \<Rightarrow> string" where
  "show_nat n = (if n < 10 then [digit_char n] else show_nat (n div 10) @ [digit_char (n mod 10)])"

declare show_nat.simps [simp del]

definition show_int :: "int \<Rightarrow> string" where
  "show_int i = (if i < 0 then CHR ''-'' # show_nat (nat (- i)) else show_nat (nat i))"

definition hex_upper :: "nat \<Rightarrow> char" where
  "hex_upper d = (if d < 10 then char_of (48 + d) else char_of (55 + d))"

definition hex_lower :: "nat \<Rightarrow> char" where
  "hex_lower d = (if d < 10 then char_of (48 + d) else char_of (87 + d))"

definition code_of :: "char \<Rightarrow> nat" where
  "code_of c = of_char c"

definition is_alnum :: "char \<Rightarrow> bool" where
  "is_alnum c = (let n = code_of c in
     (48 \<le> n \<and> n \<le> 57) \<or> (65 \<le> n \<and> n \<le> 90) \<or> (97 \<le> n \<and> n \<le> 122))"

definition percent_byte :: "char \<Rightarrow> string" where
  "percent_byte c = [CHR ''%'', hex_upper (code_of c div 16), hex_upper (code_of c mod 16)]"

subsection \<open>String conversion\<close>

fun join :: "string \<Rightarrow> string list \<Rightarrow> string" where
  "join sep [] = []"
| "join sep [x] = x"
| "join sep (x # y # ys) = x @ sep @ join sep (y # ys)"

text \<open>
  \<^verbatim>\<open>ToString(v)\<close>, as applied by a template literal \<^verbatim>\<open>`${v}`\<close> and by
  \<^verbatim>\<open>encodeURIComponent(v)\<close>.  An array is joined with commas, its \<^verbatim>\<open>null\<close> elements
  rendered empty.  A plain object is rendered by \<^verbatim>\<open>Object.prototype.toString\<close>, unless
  it has an own property \<^verbatim>\<open>toString\<close>: a JSON value is not callable, the inherited
  \<^verbatim>\<open>valueOf\<close> returns the object itself, and the conversion throws a TypeError
  (\<open>None\<close> here).
\<close>

fun sequence :: "'a option list \<Rightarrow> 'a list option" where
  "sequence [] = Some []"
| "sequence (None # xs) = None"
| "sequence (Some x # xs) = (case sequence xs of None \<Rightarrow> None | Some ys \<Rightarrow> Some (x # ys))"

fun ToString_json :: "json \<Rightarrow> string option" where
  "ToString_json JNull = Some ''null''"
| "ToString_json (JBool b) = Some (if b then ''true'' else ''false'')"
| "ToString_json (JNum n) = Some (show_int n)"
| "ToString_json (JStr s) = Some s"
| "ToString_json (JArr xs) =
     (case sequence (map (\<lambda>x. if x = JNull then Some [] else ToString_json x) xs) of
        None \<Rightarrow> None
      | Some ss \<Rightarrow> Some (join '','' ss))"
| "ToString_json (JObj kvs) =
     (if map_of kvs ''toString'' = None then Some ''[object Object]'' else None)"

definition ToString :: "json option \<Rightarrow> string option" where
  "ToString v = (case v of None \<Rightarrow> Some ''undefined'' | Some j \<Rightarrow> ToString_json j)"

text \<open>\<^verbatim>\<open>encodeURIComponent\<close> on a byte string: every byte outside the unreserved set is
  percent-encoded.\<close>

definition uri_unreserved :: "char \<Rightarrow> bool" where
  "uri_unreserved c = (is_alnum c \<or> c \<in> set ''-_.!~*'' \<or> c = CHR 0x27 \<or> c \<in> set ''()'')"

definition encodeURIComponent :: "string \<Rightarrow> string" where
  "encodeURIComponent s = concat (map (\<lambda>c. if uri_unreserved c then [c] else percent_byte c) s)"

text \<open>\<^verbatim>\<open>URLSearchParams.prototype.toString\<close>: the form-urlencoded serialisation of the
  appended name/value pairs.\<close>

definition form_byte :: "char \<Rightarrow> string" where
  "form_byte c = (if c = CHR '' '' then ''+''
                  else if is_alnum c \<or> c \<in> set ''*-._'' then [c]
                  else percent_byte c)"

definition form_encode :: "string \<Rightarrow> string" where
  "form_encode s = concat (map form_byte s)"

definition URLSearchParams_toString :: "(string \<times> string) list \<Rightarrow> string" where
  "URLSearchParams_toString ps = join ''&'' (map (\<lambda>(k, v). form_encode k @ ''='' @ form_encode v) ps)"

subsection \<open>\<^verbatim>\<open>JSON.stringify\<close>\<close>

definition escape_char :: "char \<Rightarrow> string" where
  "escape_char c =
     (if c = CHR 0x22 then [CHR 0x5C, CHR 0x22]
      else if c = CHR 0x5C then [CHR 0x5C, CHR 0x5C]
      else if c = CHR 0x08 then [CHR 0x5C, CHR ''b'']
      else if c = CHR 0x0C then [CHR 0x5C, CHR ''f'']
      else if c = CHR 0x0A then [CHR 0x5C, CHR ''n'']
      else if c = CHR 0x0D then [CHR 0x5C, CHR ''r'']
      else if c = CHR 0x09 then [CHR 0x5C, CHR ''t'']
      else if code_of c < 32 then
        [CHR 0x5C, CHR ''u'', CHR ''0'', CHR ''0'', hex_lower (code_of c div 16), hex_lower (code_of c mod 16)]
      else [c])"

definition quote :: "string \<Rightarrow> string" where
  "quote s = CHR 0x22 # concat (map escape_char s) @ [CHR 0x22]"

text \<open>\<^verbatim>\<open>JSON.stringify(v)\<close>: the compact form, used for request bodies.\<close>

fun JSON_stringify :: "json \<Rightarrow> string" where
  "JSON_stringify JNull = ''null''"
| "JSON_stringify (JBool b) = (if b then ''true'' else ''false'')"
| "JSON_stringify (JNum n) = show_int n"
| "JSON_stringify (JStr s) = quote s"
| "JSON_stringify (JArr xs) = ''['' @ join '','' (map JSON_stringify xs) @ '']''"
| "JSON_stringify (JObj kvs) =
     ''{'' @ join '','' (map (\<lambda>(k, v). quote k @ '':'' @ JSON_stringify v) kvs) @ ''}''"

text \<open>\<^verbatim>\<open>JSON.stringify(v, null, 2)\<close>: the indented form, used for the text returned to
  the host.  The first argument is the current indentation.\<close>

fun JSON_pretty :: "nat \<Rightarrow> json \<Rightarrow> string" where
  "JSON_pretty ind JNull = ''null''"
| "JSON_pretty ind (JBool b) = (if b then ''true'' else ''false'')"
| "JSON_pretty ind (JNum n) = show_int n"
| "JSON_pretty ind (JStr s) = quote s"
| "JSON_pretty ind (JArr xs) =
     (if xs = [] then ''[]''
      else ''['' @ [CHR 0x0A] @ replicate (ind + 2) CHR '' '' @
           join ('','' @ [CHR 0x0A] @ replicate (ind + 2) CHR '' '')
                (map (JSON_pretty (ind + 2)) xs) @
           [CHR 0x0A] @ replicate ind CHR '' '' @ '']'')"
| "JSON_pretty ind (JObj kvs) =
     (if kvs = [] then ''{}''
      else ''{'' @ [CHR 0x0A] @ replicate (ind + 2) CHR '' '' @
           join ('','' @ [CHR 0x0A] @ replicate (ind + 2) CHR '' '')
                (map (\<lambda>(k, v). quote k @ '': '' @ JSON_pretty (ind + 2) v) kvs) @
           [CHR 0x0A] @ replicate ind CHR '' '' @ ''}'')"

definition JSON_stringify2 :: "json \<Rightarrow> string" where
  "JSON_stringify2 v = JSON_pretty 0 v"


text \<open>Messages of the TypeErrors that V8 raises where the source converts, destructures
  or dereferences a value it did not check.\<close>

definition cannot_convert :: string where
  "cannot_convert = ''Cannot convert object to primitive value''"

definition cannot_destructure :: "string \<Rightarrow> string" where
  "cannot_destructure k =
     ''Cannot destructure property '' @ [CHR 0x27] @ k @ [CHR 0x27] @ '' of '' @
     [CHR 0x27] @ ''args'' @ [CHR 0x27] @ '' as it is undefined.''"

definition cannot_read_null :: "string \<Rightarrow> string" where
  "cannot_read_null m =
     ''Cannot read properties of null (reading '' @ [CHR 0x27] @ m @ [CHR 0x27] @ '')''"

text \<open>The method call \<^verbatim>\<open>e.toString()\<close> on a truthy value \<open>v\<close>; \<open>e\<close> is the source text
  of the receiver, which V8 quotes when an own property shadows the method.\<close>

fun call_toString :: "string \<Rightarrow> json \<Rightarrow> string + string" where
  "call_toString e (JObj kvs) =
     (if map_of kvs ''toString'' = None then Inr ''[object Object]''
      else Inl (e @ ''.toString is not a function''))"
| "call_toString e v = (case ToString_json v of None \<Rightarrow> Inl cannot_convert | Some s \<Rightarrow> Inr s)"

section \<open>The remote client: class \<^verbatim>\<open>ShortcutAPI\<close>\<close>

record ShortcutConfig =
  apiToken :: "json option"
  baseUrl :: "json option"

record ShortcutAPI =
  config :: ShortcutConfig
  api_baseUrl :: json

definition default_baseUrl :: string where
  "default_baseUrl = ''https://api.app.shortcut.com/api/v3''"

text \<open>The constructor: \<^verbatim>\<open>this.baseUrl = config.baseUrl || '...'\<close>.\<close>

definition new_ShortcutAPI :: "ShortcutConfig \<Rightarrow> ShortcutAPI" where
  "new_ShortcutAPI cfg =
     \<lparr>config = cfg,
      api_baseUrl = (case baseUrl cfg of
                       None \<Rightarrow> JStr default_baseUrl
                     | Some b \<Rightarrow> if truthy (Some b) then b else JStr default_baseUrl)\<rparr>"

text \<open>
  What \<^verbatim>\<open>fetch\<close> is called with, and what it answers.  The remote service and the
  network are a function from the request to the outcome: the promise rejects with a
  message, or resolves to a response, of which the source reads \<^verbatim>\<open>ok\<close>, \<^verbatim>\<open>status\<close>,
  \<^verbatim>\<open>text()\<close> and \<^verbatim>\<open>json()\<close>.  \<open>body_json\<close> is the outcome of \<^verbatim>\<open>json()\<close>: the parsed
  body, or the message of the SyntaxError when the body is not JSON (an empty body is
  not).  \<open>body_text\<close> is the outcome of \<^verbatim>\<open>text()\<close>; the body is taken as received in
  full.
\<close>

record request =
  url :: string
  http_method :: string
  headers :: "(string \<times> json option) list"
  body :: "string option"

record response =
  status :: nat
  body_text :: string
  body_json :: "string + json"

definition ok :: "response \<Rightarrow> bool" where
  "ok r = (200 \<le> status r \<and> status r \<le> 299)"

datatype fetch_result = Rejected string | Resolved response

type_synonym fetch = "request \<Rightarrow> fetch_result"

text \<open>The \<^verbatim>\<open>RequestInit\<close> the operations pass; without a method \<^verbatim>\<open>fetch\<close> sends a GET.\<close>

record options =
  opt_method :: "string option"
  opt_body :: "string option"

definition no_options :: options where
  "no_options = \<lparr>opt_method = None, opt_body = None\<rparr>"

text \<open>An asynchronous operation yields the message of the error it throws (\<open>Inl\<close>) or its
  value, and the list of the requests it passed to \<^verbatim>\<open>fetch\<close>.\<close>

type_synonym 'a io = "(string + 'a) \<times> request list"

text \<open>The message of \<^verbatim>\<open>new Error(`Shortcut API error (${response.status}): ${errorText}`)\<close>.\<close>

definition api_error :: "response \<Rightarrow> string" where
  "api_error resp = ''Shortcut API error ('' @ show_nat (status resp) @ ''): '' @ body_text resp"

definition makeRequest :: "fetch \<Rightarrow> ShortcutAPI \<Rightarrow> string \<Rightarrow> options \<Rightarrow> json io" where
  "makeRequest fetch this endpoint opts =
     (case ToString_json (api_baseUrl this) of
        None \<Rightarrow> (Inl cannot_convert, [])
      | Some base \<Rightarrow>
          (let rq = \<lparr>url = base @ endpoint,
                     http_method = (case opt_method opts of None \<Rightarrow> ''GET'' | Some m \<Rightarrow> m),
                     headers = [(''Content-Type'', Some (JStr ''application/json'')),
                                (''Shortcut-Token'', apiToken (config this))],
                     body = opt_body opts\<rparr>
           in case fetch rq of
                Rejected msg \<Rightarrow> (Inl msg, [rq])
              | Resolved resp \<Rightarrow>
                  if \<not> ok resp
                  then (Inl (api_error resp), [rq])
                  else (body_json resp, [rq])))"

text \<open>An endpoint built by a template literal \<^verbatim>\<open>`/stories/${id}`\<close>, then requested.\<close>

definition request_by_id :: "fetch \<Rightarrow> ShortcutAPI \<Rightarrow> string \<Rightarrow> json option \<Rightarrow> options \<Rightarrow> json io" where
  "request_by_id fetch this prefix ident opts =
     (case ToString ident of
        None \<Rightarrow> (Inl cannot_convert, [])
      | Some s \<Rightarrow> makeRequest fetch this (prefix @ s) opts)"

text \<open>\<^verbatim>\<open>JSON.stringify\<close> of an argument object that may be \<^verbatim>\<open>undefined\<close>.\<close>

definition stringify_args :: "jsobject option \<Rightarrow> string option" where
  "stringify_args a = map_option (\<lambda>obj. JSON_stringify (JObj obj)) a"

subsection \<open>Story operations\<close>

definition append_param ::
  "jsobject option \<Rightarrow> string \<Rightarrow> (string \<times> string) list \<Rightarrow> string + (string \<times> string) list" where
  "append_param params k sp =
     (case opt_prop params k of
        None \<Rightarrow> Inr sp
      | Some v \<Rightarrow>
          if truthy (Some v)
          then (case call_toString (''params.'' @ k) v of
                  Inl e \<Rightarrow> Inl e
                | Inr s \<Rightarrow> Inr (sp @ [(k, s)]))
          else Inr sp)"

definition getStories_searchParams :: "jsobject option \<Rightarrow> string + (string \<times> string) list" where
  "getStories_searchParams params =
     (case append_param params ''project_id'' [] of
        Inl e \<Rightarrow> Inl e
      | Inr sp1 \<Rightarrow>
     (case append_param params ''epic_id'' sp1 of
        Inl e \<Rightarrow> Inl e
      | Inr sp2 \<Rightarrow>
          append_param params ''workflow_state_id''
            (if truthy (opt_prop params ''includes_description'')
             then sp2 @ [(''includes_description'', ''true'')] else sp2)))"

definition getStories :: "fetch \<Rightarrow> ShortcutAPI \<Rightarrow> jsobject option \<Rightarrow> json io" where
  "getStories fetch this params =
     (case getStories_searchParams params of
        Inl e \<Rightarrow> (Inl e, [])
      | Inr searchParams \<Rightarrow>
          (let query = (if URLSearchParams_toString searchParams \<noteq> []
                        then ''?'' @ URLSearchParams_toString searchParams else [])
           in makeRequest fetch this (''/stories/search'' @ query)
                \<lparr>opt_method = Some ''POST'',
                 opt_body = Some (JSON_stringify
                                   (case params of None \<Rightarrow> JObj [] | Some obj \<Rightarrow> JObj obj))\<rparr>))"

definition getStory :: "fetch \<Rightarrow> ShortcutAPI \<Rightarrow> json option \<Rightarrow> json io" where
  "getStory fetch this ident = request_by_id fetch this ''/stories/'' ident no_options"

definition createStory :: "fetch \<Rightarrow> ShortcutAPI \<Rightarrow> jsobject option \<Rightarrow> json io" where
  "createStory fetch this story =
     makeRequest fetch this ''/stories'' \<lparr>opt_method = Some ''POST'', opt_body = stringify_args story\<rparr>"

definition updateStory :: "fetch \<Rightarrow> ShortcutAPI \<Rightarrow> json option \<Rightarrow> jsobject \<Rightarrow> json io" where
  "updateStory fetch this ident updates =
     request_by_id fetch this ''/stories/'' ident
       \<lparr>opt_method = Some ''PUT'', opt_body = Some (JSON_stringify (JObj updates))\<rparr>"

text \<open>\<^verbatim>\<open>deleteStory\<close> awaits \<^verbatim>\<open>makeRequest\<close> and drops its value; it fails whenever
  \<^verbatim>\<open>makeRequest\<close> does.\<close>

definition deleteStory :: "fetch \<Rightarrow> ShortcutAPI \<Rightarrow> json option \<Rightarrow> unit io" where
  "deleteStory fetch this ident =
     (case request_by_id fetch this ''/stories/'' ident \<lparr>opt_method = Some ''DELETE'', opt_body = None\<rparr> of
        (Inl e, rs) \<Rightarrow> (Inl e, rs)
      | (Inr v, rs) \<Rightarrow> (Inr (), rs))"

subsection \<open>Epic, project, member, label, iteration, search and workflow operations\<close>

definition getEpics :: "fetch \<Rightarrow> ShortcutAPI \<Rightarrow> json io" where
  "getEpics fetch this = makeRequest fetch this ''/epics'' no_options"

definition getEpic :: "fetch \<Rightarrow> ShortcutAPI \<Rightarrow> json option \<Rightarrow> json io" where
  "getEpic fetch this ident = request_by_id fetch this ''/epics/'' ident no_options"

definition createEpic :: "fetch \<Rightarrow> ShortcutAPI \<Rightarrow> jsobject option \<Rightarrow> json io" where
  "createEpic fetch this epic =
     makeRequest fetch this ''/epics'' \<lparr>opt_method = Some ''POST'', opt_body = stringify_args epic\<rparr>"

definition updateEpic :: "fetch \<Rightarrow> ShortcutAPI \<Rightarrow> json option \<Rightarrow> jsobject \<Rightarrow> json io" where
  "updateEpic fetch this ident updates =
     request_by_id fetch this ''/epics/'' ident
       \<lparr>opt_method = Some ''PUT'', opt_body = Some (JSON_stringify (JObj updates))\<rparr>"

definition getProjects :: "fetch \<Rightarrow> ShortcutAPI \<Rightarrow> json io" where
  "getProjects fetch this = makeRequest fetch this ''/projects'' no_options"

definition getProject :: "fetch \<Rightarrow> ShortcutAPI \<Rightarrow> json option \<Rightarrow> json io" where
  "getProject fetch this ident = request_by_id fetch this ''/projects/'' ident no_options"

definition createProject :: "fetch \<Rightarrow> ShortcutAPI \<Rightarrow> jsobject option \<Rightarrow> json io" where
  "createProject fetch this project =
     makeRequest fetch this ''/projects'' \<lparr>opt_method = Some ''POST'', opt_body = stringify_args project\<rparr>"

definition getMembers :: "fetch \<Rightarrow> ShortcutAPI \<Rightarrow> json io" where
  "getMembers fetch this = makeRequest fetch this ''/members'' no_options"

definition getCurrentMember :: "fetch \<Rightarrow> ShortcutAPI \<Rightarrow> json io" where
  "getCurrentMember fetch this = makeRequest fetch this ''/member'' no_options"

definition getLabels :: "fetch \<Rightarrow> ShortcutAPI \<Rightarrow> json io" where
  "getLabels fetch this = makeRequest fetch this ''/labels'' no_options"

definition createLabel :: "fetch \<Rightarrow> ShortcutAPI \<Rightarrow> jsobject option \<Rightarrow> json io" where
  "createLabel fetch this label =
     makeRequest fetch this ''/labels'' \<lparr>opt_method = Some ''POST'', opt_body = stringify_args label\<rparr>"

definition getIterations :: "fetch \<Rightarrow> ShortcutAPI \<Rightarrow> json io" where
  "getIterations fetch this = makeRequest fetch this ''/iterations'' no_options"

definition getIteration :: "fetch \<Rightarrow> ShortcutAPI \<Rightarrow> json option \<Rightarrow> json io" where
  "getIteration fetch this ident = request_by_id fetch this ''/iterations/'' ident no_options"

definition createIteration :: "fetch \<Rightarrow> ShortcutAPI \<Rightarrow> jsobject option \<Rightarrow> json io" where
  "createIteration fetch this iteration =
     makeRequest fetch this ''/iterations''
       \<lparr>opt_method = Some ''POST'', opt_body = stringify_args iteration\<rparr>"

text \<open>\<^verbatim>\<open>search(query, detail = 'full')\<close>: the default applies to an \<^verbatim>\<open>undefined\<close>
  \<^verbatim>\<open>detail\<close> only.\<close>

definition search :: "fetch \<Rightarrow> ShortcutAPI \<Rightarrow> json option \<Rightarrow> json option \<Rightarrow> json io" where
  "search fetch this query detail =
     (case ToString query of
        None \<Rightarrow> (Inl cannot_convert, [])
      | Some q \<Rightarrow>
     (case ToString (case detail of None \<Rightarrow> Some (JStr ''full'') | Some d \<Rightarrow> Some d) of
        None \<Rightarrow> (Inl cannot_convert, [])
      | Some d \<Rightarrow>
          makeRequest fetch this (''/search?query='' @ encodeURIComponent q @ ''&detail='' @ d)
            no_options))"

definition getWorkflows :: "fetch \<Rightarrow> ShortcutAPI \<Rightarrow> json io" where
  "getWorkflows fetch this = makeRequest fetch this ''/workflows'' no_options"


section \<open>The tool dispatcher: class \<^verbatim>\<open>ShortcutMCPServer\<close>\<close>

datatype ErrorCode = InvalidRequest | MethodNotFound | InternalError

text \<open>\<^verbatim>\<open>new McpError(code, message)\<close>, with the two arguments of the constructor.\<close>

record McpError =
  code :: ErrorCode
  message :: string

text \<open>What a handler throws: an \<^verbatim>\<open>McpError\<close>, or another \<^verbatim>\<open>Error\<close> with its message.\<close>

datatype exn = McpErr McpError | JsErr string

text \<open>The result \<^verbatim>\<open>{ content: [{ type: "text", text }] }\<close>.\<close>

datatype tool_result = text_content string

record server =
  shortcutAPI :: "ShortcutAPI option"

text \<open>The static catalog of \<^verbatim>\<open>ListToolsRequestSchema\<close>: each tool's name with the
  \<^verbatim>\<open>required\<close> list of its input schema.\<close>

definition tools :: "(string \<times> string list) list" where
  "tools =
     [(''shortcut_configure'', [''apiToken'']),
      (''shortcut_get_stories'', []),
      (''shortcut_get_story'', [''id'']),
      (''shortcut_create_story'', [''name'']),
      (''shortcut_update_story'', [''id'']),
      (''shortcut_delete_story'', [''id'']),
      (''shortcut_get_epics'', []),
      (''shortcut_get_epic'', [''id'']),
      (''shortcut_create_epic'', [''name'']),
      (''shortcut_update_epic'', [''id'']),
      (''shortcut_get_projects'', []),
      (''shortcut_get_project'', [''id'']),
      (''shortcut_create_project'', [''name'', ''team_id'']),
      (''shortcut_get_members'', []),
      (''shortcut_get_current_member'', []),
      (''shortcut_get_labels'', []),
      (''shortcut_create_label'', [''name'']),
      (''shortcut_get_iterations'', []),
      (''shortcut_get_iteration'', [''id'']),
      (''shortcut_create_iteration'', [''name'', ''start_date'', ''end_date'']),
      (''shortcut_search'', [''query'']),
      (''shortcut_get_workflows'', [])]"

definition catalog :: "string list" where
  "catalog = map fst tools"

subsection \<open>Handlers\<close>

text \<open>A handler's outcome: what it throws or returns, and the requests it issued.\<close>

type_synonym handled = "(exn + tool_result) \<times> request list"

text \<open>\<^verbatim>\<open>this.shortcutAPI!.m(...)\<close>: the assertion is erased at run time, so on \<^verbatim>\<open>null\<close>
  the call throws.\<close>

definition with_api :: "server \<Rightarrow> string \<Rightarrow> (ShortcutAPI \<Rightarrow> handled) \<Rightarrow> handled" where
  "with_api this m f =
     (case shortcutAPI this of
        None \<Rightarrow> (Inl (JsErr (cannot_read_null m)), [])
      | Some api \<Rightarrow> f api)"

text \<open>The text block built from an operation's value, or the operation's error rethrown.\<close>

definition reply :: "('a \<Rightarrow> exn + string) \<Rightarrow> 'a io \<Rightarrow> handled" where
  "reply fmt r =
     (case r of
        (Inl e, rs) \<Rightarrow> (Inl (JsErr e), rs)
      | (Inr v, rs) \<Rightarrow> (case fmt v of Inl x \<Rightarrow> (Inl x, rs) | Inr t \<Rightarrow> (Inr (text_content t), rs)))"

definition as_json :: "json \<Rightarrow> exn + string" where
  "as_json v = Inr (JSON_stringify2 v)"

definition with_prefix :: "string \<Rightarrow> json \<Rightarrow> exn + string" where
  "with_prefix p v = Inr (p @ [CHR 0x0A] @ JSON_stringify2 v)"

definition handleConfigure :: "fetch \<Rightarrow> server \<Rightarrow> jsobject option \<Rightarrow> (exn + tool_result) \<times> server \<times> request list" where
  "handleConfigure fetch this args =
     (case args of
        None \<Rightarrow> (Inl (JsErr (cannot_destructure ''apiToken'')), this, [])
      | Some a \<Rightarrow>
          (let api = new_ShortcutAPI \<lparr>apiToken = get_prop a ''apiToken'', baseUrl = get_prop a ''baseUrl''\<rparr>
           in case getCurrentMember fetch api of
                (Inr member, rs) \<Rightarrow>
                  (Inr (text_content ''Shortcut API configured successfully!''),
                   this\<lparr>shortcutAPI := Some api\<rparr>, rs)
              | (Inl e, rs) \<Rightarrow>
                  (Inl (McpErr \<lparr>code = InvalidRequest,
                                message = ''Failed to configure Shortcut API: '' @ e\<rparr>),
                   this\<lparr>shortcutAPI := None\<rparr>, rs)))"

definition handleGetStories :: "fetch \<Rightarrow> server \<Rightarrow> jsobject option \<Rightarrow> handled" where
  "handleGetStories fetch this args =
     with_api this ''getStories'' (\<lambda>api. reply as_json (getStories fetch api args))"

definition handleGetStory :: "fetch \<Rightarrow> server \<Rightarrow> jsobject option \<Rightarrow> handled" where
  "handleGetStory fetch this args =
     (case args of
        None \<Rightarrow> (Inl (JsErr (cannot_destructure ''id'')), [])
      | Some a \<Rightarrow>
          with_api this ''getStory'' (\<lambda>api. reply as_json (getStory fetch api (get_prop a ''id''))))"

definition handleCreateStory :: "fetch \<Rightarrow> server \<Rightarrow> jsobject option \<Rightarrow> handled" where
  "handleCreateStory fetch this args =
     with_api this ''createStory''
       (\<lambda>api. reply (with_prefix ''Story created successfully!'') (createStory fetch api args))"

text \<open>\<^verbatim>\<open>const { id, ...updates } = args\<close>: \<open>updates\<close> holds the own properties of \<open>args\<close>
  other than \<open>id\<close>.\<close>

definition rest_without :: "string \<Rightarrow> jsobject \<Rightarrow> jsobject" where
  "rest_without k a = filter (\<lambda>(k', v). k' \<noteq> k) a"

definition handleUpdateStory :: "fetch \<Rightarrow> server \<Rightarrow> jsobject option \<Rightarrow> handled" where
  "handleUpdateStory fetch this args =
     (case args of
        None \<Rightarrow> (Inl (JsErr (cannot_destructure ''id'')), [])
      | Some a \<Rightarrow>
          with_api this ''updateStory''
            (\<lambda>api. reply (with_prefix ''Story updated successfully!'')
                      (updateStory fetch api (get_prop a ''id'') (rest_without ''id'' a))))"

definition handleDeleteStory :: "fetch \<Rightarrow> server \<Rightarrow> jsobject option \<Rightarrow> handled" where
  "handleDeleteStory fetch this args =
     (case args of
        None \<Rightarrow> (Inl (JsErr (cannot_destructure ''id'')), [])
      | Some a \<Rightarrow>
          with_api this ''deleteStory''
            (\<lambda>api. reply (\<lambda>u. case ToString (get_prop a ''id'') of
                                 None \<Rightarrow> Inl (JsErr cannot_convert)
                               | Some s \<Rightarrow> Inr (''Story '' @ s @ '' deleted successfully!''))
                      (deleteStory fetch api (get_prop a ''id''))))"

definition handleGetEpics :: "fetch \<Rightarrow> server \<Rightarrow> handled" where
  "handleGetEpics fetch this = with_api this ''getEpics'' (\<lambda>api. reply as_json (getEpics fetch api))"

definition handleGetEpic :: "fetch \<Rightarrow> server \<Rightarrow> jsobject option \<Rightarrow> handled" where
  "handleGetEpic fetch this args =
     (case args of
        None \<Rightarrow> (Inl (JsErr (cannot_destructure ''id'')), [])
      | Some a \<Rightarrow>
          with_api this ''getEpic'' (\<lambda>api. reply as_json (getEpic fetch api (get_prop a ''id''))))"

definition handleCreateEpic :: "fetch \<Rightarrow> server \<Rightarrow> jsobject option \<Rightarrow> handled" where
  "handleCreateEpic fetch this args =
     with_api this ''createEpic''
       (\<lambda>api. reply (with_prefix ''Epic created successfully!'') (createEpic fetch api args))"

definition handleUpdateEpic :: "fetch \<Rightarrow> server \<Rightarrow> jsobject option \<Rightarrow> handled" where
  "handleUpdateEpic fetch this args =
     (case args of
        None \<Rightarrow> (Inl (JsErr (cannot_destructure ''id'')), [])
      | Some a \<Rightarrow>
          with_api this ''updateEpic''
            (\<lambda>api. reply (with_prefix ''Epic updated successfully!'')
                      (updateEpic fetch api (get_prop a ''id'') (rest_without ''id'' a))))"

definition handleGetProjects :: "fetch \<Rightarrow> server \<Rightarrow> handled" where
  "handleGetProjects fetch this =
     with_api this ''getProjects'' (\<lambda>api. reply as_json (getProjects fetch api))"

definition handleGetProject :: "fetch \<Rightarrow> server \<Rightarrow> jsobject option \<Rightarrow> handled" where
  "handleGetProject fetch this args =
     (case args of
        None \<Rightarrow> (Inl (JsErr (cannot_destructure ''id'')), [])
      | Some a \<Rightarrow>
          with_api this ''getProject'' (\<lambda>api. reply as_json (getProject fetch api (get_prop a ''id''))))"

definition handleCreateProject :: "fetch \<Rightarrow> server \<Rightarrow> jsobject option \<Rightarrow> handled" where
  "handleCreateProject fetch this args =
     with_api this ''createProject''
       (\<lambda>api. reply (with_prefix ''Project created successfully!'') (createProject fetch api args))"

definition handleGetMembers :: "fetch \<Rightarrow> server \<Rightarrow> handled" where
  "handleGetMembers fetch this =
     with_api this ''getMembers'' (\<lambda>api. reply as_json (getMembers fetch api))"

definition handleGetCurrentMember :: "fetch \<Rightarrow> server \<Rightarrow> handled" where
  "handleGetCurrentMember fetch this =
     with_api this ''getCurrentMember'' (\<lambda>api. reply as_json (getCurrentMember fetch api))"

definition handleGetLabels :: "fetch \<Rightarrow> server \<Rightarrow> handled" where
  "handleGetLabels fetch this =
     with_api this ''getLabels'' (\<lambda>api. reply as_json (getLabels fetch api))"

definition handleCreateLabel :: "fetch \<Rightarrow> server \<Rightarrow> jsobject option \<Rightarrow> handled" where
  "handleCreateLabel fetch this args =
     with_api this ''createLabel''
       (\<lambda>api. reply (with_prefix ''Label created successfully!'') (createLabel fetch api args))"

definition handleGetIterations :: "fetch \<Rightarrow> server \<Rightarrow> handled" where
  "handleGetIterations fetch this =
     with_api this ''getIterations'' (\<lambda>api. reply as_json (getIterations fetch api))"

definition handleGetIteration :: "fetch \<Rightarrow> server \<Rightarrow> jsobject option \<Rightarrow> handled" where
  "handleGetIteration fetch this args =
     (case args of
        None \<Rightarrow> (Inl (JsErr (cannot_destructure ''id'')), [])
      | Some a \<Rightarrow>
          with_api this ''getIteration''
            (\<lambda>api. reply as_json (getIteration fetch api (get_prop a ''id''))))"

definition handleCreateIteration :: "fetch \<Rightarrow> server \<Rightarrow> jsobject option \<Rightarrow> handled" where
  "handleCreateIteration fetch this args =
     with_api this ''createIteration''
       (\<lambda>api. reply (with_prefix ''Iteration created successfully!'')
                 (createIteration fetch api args))"

text \<open>\<^verbatim>\<open>const { query, detail = 'full' } = args\<close>.\<close>

definition handleSearch :: "fetch \<Rightarrow> server \<Rightarrow> jsobject option \<Rightarrow> handled" where
  "handleSearch fetch this args =
     (case args of
        None \<Rightarrow> (Inl (JsErr (cannot_destructure ''query'')), [])
      | Some a \<Rightarrow>
          with_api this ''search''
            (\<lambda>api. reply as_json
                      (search fetch api (get_prop a ''query'')
                         (case get_prop a ''detail'' of
                            None \<Rightarrow> Some (JStr ''full'')
                          | Some d \<Rightarrow> Some d))))"

definition handleGetWorkflows :: "fetch \<Rightarrow> server \<Rightarrow> handled" where
  "handleGetWorkflows fetch this =
     with_api this ''getWorkflows'' (\<lambda>api. reply as_json (getWorkflows fetch api))"

subsection \<open>The \<^verbatim>\<open>CallToolRequestSchema\<close> handler\<close>

definition not_configured :: McpError where
  "not_configured =
     \<lparr>code = InvalidRequest,
      message = ''Shortcut API not configured. Please run shortcut_configure first.''\<rparr>"

text \<open>A handler that leaves the dispatcher's state as it is.\<close>

definition keep :: "server \<Rightarrow> handled \<Rightarrow> (exn + tool_result) \<times> server \<times> request list" where
  "keep this h = (fst h, this, snd h)"

text \<open>The body of the \<^verbatim>\<open>try\<close> block: the configuration gate, then the \<^verbatim>\<open>switch\<close>.\<close>

definition callTool_try ::
  "fetch \<Rightarrow> server \<Rightarrow> string \<Rightarrow> jsobject option \<Rightarrow> (exn + tool_result) \<times> server \<times> request list" where
  "callTool_try fetch this name args =
     (if shortcutAPI this = None \<and> name \<noteq> ''shortcut_configure''
      then (Inl (McpErr not_configured), this, [])
      else if name = ''shortcut_configure'' then handleConfigure fetch this args
      else if name = ''shortcut_get_stories'' then keep this (handleGetStories fetch this args)
      else if name = ''shortcut_get_story'' then keep this (handleGetStory fetch this args)
      else if name = ''shortcut_create_story'' then keep this (handleCreateStory fetch this args)
      else if name = ''shortcut_update_story'' then keep this (handleUpdateStory fetch this args)
      else if name = ''shortcut_delete_story'' then keep this (handleDeleteStory fetch this args)
      else if name = ''shortcut_get_epics'' then keep this (handleGetEpics fetch this)
      else if name = ''shortcut_get_epic'' then keep this (handleGetEpic fetch this args)
      else if name = ''shortcut_create_epic'' then keep this (handleCreateEpic fetch this args)
      else if name = ''shortcut_update_epic'' then keep this (handleUpdateEpic fetch this args)
      else if name = ''shortcut_get_projects'' then keep this (handleGetProjects fetch this)
      else if name = ''shortcut_get_project'' then keep this (handleGetProject fetch this args)
      else if name = ''shortcut_create_project'' then keep this (handleCreateProject fetch this args)
      else if name = ''shortcut_get_members'' then keep this (handleGetMembers fetch this)
      else if name = ''shortcut_get_current_member'' then keep this (handleGetCurrentMember fetch this)
      else if name = ''shortcut_get_labels'' then keep this (handleGetLabels fetch this)
      else if name = ''shortcut_create_label'' then keep this (handleCreateLabel fetch this args)
      else if name = ''shortcut_get_iterations'' then keep this (handleGetIterations fetch this)
      else if name = ''shortcut_get_iteration'' then keep this (handleGetIteration fetch this args)
      else if name = ''shortcut_create_iteration'' then keep this (handleCreateIteration fetch this args)
      else if name = ''shortcut_search'' then keep this (handleSearch fetch this args)
      else if name = ''shortcut_get_workflows'' then keep this (handleGetWorkflows fetch this)
      else (Inl (McpErr \<lparr>code = MethodNotFound, message = ''Unknown tool: '' @ name\<rparr>), this, []))"

text \<open>The \<^verbatim>\<open>catch\<close> block: an \<^verbatim>\<open>McpError\<close> is rethrown as it is, any other error is
  wrapped as an internal error naming the tool.\<close>

definition callTool ::
  "fetch \<Rightarrow> server \<Rightarrow> string \<Rightarrow> jsobject option \<Rightarrow> (McpError + tool_result) \<times> server \<times> request list" where
  "callTool fetch this name args =
     (case callTool_try fetch this name args of
        (Inl (McpErr e), this', rs) \<Rightarrow> (Inl e, this', rs)
      | (Inl (JsErr m), this', rs) \<Rightarrow>
          (Inl \<lparr>code = InternalError, message = ''Error executing '' @ name @ '': '' @ m\<rparr>, this', rs)
      | (Inr r, this', rs) \<Rightarrow> (Inr r, this', rs))"

text \<open>Projections of a call's outcome.\<close>

definition result_of :: "'a \<times> server \<times> request list \<Rightarrow> 'a" where
  "result_of out = fst out"

definition state_of :: "'a \<times> server \<times> request list \<Rightarrow> server" where
  "state_of out = fst (snd out)"

definition requests_of :: "'a \<times> server \<times> request list \<Rightarrow> request list" where
  "requests_of out = snd (snd out)"


section \<open>Auxiliary predicates\<close>

text \<open>An operation, or a handler, surfaces a non-success response: whenever one of the
  requests it issued was answered with a non-success status, it issued that request only
  and failed with the error built from that response.\<close>

definition op_surfaces :: "fetch \<Rightarrow> 'a io \<Rightarrow> bool" where
  "op_surfaces fetch r =
     (\<forall>rq \<in> set (snd r). \<forall>resp. fetch rq = Resolved resp \<and> \<not> ok resp \<longrightarrow>
        r = (Inl (api_error resp), [rq]))"

definition handler_surfaces :: "fetch \<Rightarrow> handled \<Rightarrow> bool" where
  "handler_surfaces fetch h =
     (\<forall>rq \<in> set (snd h). \<forall>resp. fetch rq = Resolved resp \<and> \<not> ok resp \<longrightarrow>
        h = (Inl (JsErr (api_error resp)), [rq]))"

section \<open>Sample inputs\<close>

definition sample_client :: ShortcutAPI where
  "sample_client = new_ShortcutAPI \<lparr>apiToken = Some (JStr ''token''), baseUrl = None\<rparr>"

definition unconfigured :: server where
  "unconfigured = \<lparr>shortcutAPI = None\<rparr>"

definition configured :: server where
  "configured = \<lparr>shortcutAPI = Some sample_client\<rparr>"

text \<open>A network that is down, a service that refuses the token, a service that answers
  every request with an empty 204, and one that answers with a member record.\<close>

definition remote_down :: fetch where
  "remote_down rq = Rejected ''fetch failed''"

definition remote_unauthorized :: fetch where
  "remote_unauthorized rq =
     Resolved \<lparr>status = 401, body_text = ''Unauthorized'',
               body_json = Inl ''Unexpected token U in JSON at position 0''\<rparr>"

definition remote_no_content :: fetch where
  "remote_no_content rq =
     Resolved \<lparr>status = 204, body_text = [], body_json = Inl ''Unexpected end of JSON input''\<rparr>"

definition sample_member :: json where
  "sample_member = JObj [(''id'', JStr ''m1''), (''role'', JStr ''admin'')]"

definition remote_member :: fetch where
  "remote_member rq =
     Resolved \<lparr>status = 200, body_text = JSON_stringify sample_member, body_json = Inr sample_member\<rparr>"


section \<open>The configuration gate and unknown tools\<close>

text \<open>
  C1, as amended.  A tool name outside the catalog yields a Method-Not-Found error naming
  it when the dispatcher is Configured.  When the dispatcher is Unconfigured the
  configuration gate, which precedes the \<^verbatim>\<open>switch\<close>, answers first: the call yields the
  Invalid-Request error that asks for \<^verbatim>\<open>shortcut_configure\<close>.  Neither case issues a
  request or changes the state.
\<close>

theorem unknown_tool_by_state:
  assumes "N \<notin> set catalog"
  shows "(shortcutAPI this \<noteq> None \<longrightarrow>
            callTool fetch this N args =
              (Inl \<lparr>code = MethodNotFound, message = ''Unknown tool: '' @ N\<rparr>, this, [])) \<and>
         (shortcutAPI this = None \<longrightarrow>
            callTool fetch this N args =
              (Inl \<lparr>code = InvalidRequest,
                    message = ''Shortcut API not configured. Please run shortcut_configure first.''\<rparr>,
               this, []))"
  using assms
  by (simp add: catalog_def tools_def callTool_def callTool_try_def not_configured_def)

theorem unknown_tool_by_state_witness:
  "''shortcut_nope'' \<notin> set catalog \<and>
   callTool remote_down configured ''shortcut_nope'' None =
     (Inl \<lparr>code = MethodNotFound, message = ''Unknown tool: shortcut_nope''\<rparr>, configured, []) \<and>
   callTool remote_down unconfigured ''shortcut_nope'' None =
     (Inl \<lparr>code = InvalidRequest,
           message = ''Shortcut API not configured. Please run shortcut_configure first.''\<rparr>,
      unconfigured, [])"
proof -
  have h: "''shortcut_nope'' \<notin> set catalog"
    by (simp add: catalog_def tools_def)
  have c: "shortcutAPI configured \<noteq> None" and u: "shortcutAPI unconfigured = None"
    by (simp_all add: configured_def unconfigured_def)
  from unknown_tool_by_state [OF h, of configured remote_down None]
       unknown_tool_by_state [OF h, of unconfigured remote_down None] h c u
  show ?thesis by simp
qed

text \<open>C1 as stated fails in the Unconfigured state: the unknown name
  \<^verbatim>\<open>shortcut_nope\<close> is answered with Invalid-Request, not Method-Not-Found.\<close>

theorem unknown_tool_unconfigured_counterexample:
  "''shortcut_nope'' \<notin> set catalog \<and>
   result_of (callTool remote_down unconfigured ''shortcut_nope'' None) \<noteq>
     Inl \<lparr>code = MethodNotFound, message = ''Unknown tool: shortcut_nope''\<rparr> \<and>
   result_of (callTool remote_down unconfigured ''shortcut_nope'' None) =
     Inl \<lparr>code = InvalidRequest,
          message = ''Shortcut API not configured. Please run shortcut_configure first.''\<rparr>"
  by (simp add: catalog_def tools_def callTool_def callTool_try_def not_configured_def
        unconfigured_def result_of_def)

text \<open>
  C2.  Every catalog tool other than \<^verbatim>\<open>shortcut_configure\<close>, called while the dispatcher
  is Unconfigured, yields the Invalid-Request error whose message tells the caller to run
  \<^verbatim>\<open>shortcut_configure\<close> first; no request is passed to \<^verbatim>\<open>fetch\<close> and the state is
  unchanged.
\<close>

theorem gate_blocks_unconfigured:
  assumes "N \<in> set catalog" and "N \<noteq> ''shortcut_configure''" and "shortcutAPI this = None"
  shows "callTool fetch this N args =
           (Inl \<lparr>code = InvalidRequest,
                 message = ''Shortcut API not configured. Please run shortcut_configure first.''\<rparr>,
            this, [])"
  using assms by (simp add: callTool_def callTool_try_def not_configured_def)

theorem gate_blocks_unconfigured_witness:
  "''shortcut_get_story'' \<in> set catalog \<and> ''shortcut_get_story'' \<noteq> ''shortcut_configure'' \<and>
   shortcutAPI unconfigured = None \<and>
   callTool remote_member unconfigured ''shortcut_get_story'' (Some [(''id'', JNum 7)]) =
     (Inl \<lparr>code = InvalidRequest,
           message = ''Shortcut API not configured. Please run shortcut_configure first.''\<rparr>,
      unconfigured, [])"
proof -
  have h1: "''shortcut_get_story'' \<in> set catalog"
    by (simp add: catalog_def tools_def)
  have h2: "''shortcut_get_story'' \<noteq> ''shortcut_configure''" by simp
  have h3: "shortcutAPI unconfigured = None" by (simp add: unconfigured_def)
  from gate_blocks_unconfigured [OF h1 h2 h3, of remote_member "Some [(''id'', JNum 7)]"] h1 h3
  show ?thesis by simp
qed


section \<open>Configuration\<close>

text \<open>What a \<^verbatim>\<open>shortcut_configure\<close> call with an argument object does, by the outcome of
  the probe \<^verbatim>\<open>getCurrentMember\<close> of the client built from the arguments.\<close>

lemma configure_failure:
  assumes "fst (getCurrentMember fetch
                  (new_ShortcutAPI \<lparr>apiToken = get_prop a ''apiToken'',
                                    baseUrl = get_prop a ''baseUrl''\<rparr>)) = Inl cause"
  shows "callTool fetch this ''shortcut_configure'' (Some a) =
           (Inl \<lparr>code = InvalidRequest, message = ''Failed to configure Shortcut API: '' @ cause\<rparr>,
            this\<lparr>shortcutAPI := None\<rparr>,
            snd (getCurrentMember fetch
                  (new_ShortcutAPI \<lparr>apiToken = get_prop a ''apiToken'',
                                    baseUrl = get_prop a ''baseUrl''\<rparr>)))"
  using assms
  by (cases "getCurrentMember fetch
                  (new_ShortcutAPI \<lparr>apiToken = get_prop a ''apiToken'',
                                    baseUrl = get_prop a ''baseUrl''\<rparr>)")
     (simp add: callTool_def callTool_try_def handleConfigure_def)

lemma configure_success:
  assumes "fst (getCurrentMember fetch
                  (new_ShortcutAPI \<lparr>apiToken = get_prop a ''apiToken'',
                                    baseUrl = get_prop a ''baseUrl''\<rparr>)) = Inr member"
  shows "callTool fetch this ''shortcut_configure'' (Some a) =
           (Inr (text_content ''Shortcut API configured successfully!''),
            this\<lparr>shortcutAPI := Some (new_ShortcutAPI \<lparr>apiToken = get_prop a ''apiToken'',
                                    baseUrl = get_prop a ''baseUrl''\<rparr>)\<rparr>,
            snd (getCurrentMember fetch
                  (new_ShortcutAPI \<lparr>apiToken = get_prop a ''apiToken'',
                                    baseUrl = get_prop a ''baseUrl''\<rparr>)))"
  using assms
  by (cases "getCurrentMember fetch
                  (new_ShortcutAPI \<lparr>apiToken = get_prop a ''apiToken'',
                                    baseUrl = get_prop a ''baseUrl''\<rparr>)")
     (simp add: callTool_def callTool_try_def handleConfigure_def)

lemma current_member_configured:
  assumes "shortcutAPI this = Some api" and "fst (getCurrentMember fetch api) = Inr member"
  shows "callTool fetch this ''shortcut_get_current_member'' args =
           (Inr (text_content (JSON_stringify2 member)), this, snd (getCurrentMember fetch api))"
  using assms
  by (cases "getCurrentMember fetch api")
     (simp add: callTool_def callTool_try_def handleGetCurrentMember_def keep_def with_api_def
        reply_def as_json_def)

lemma makeRequest_headers:
  "rq \<in> set (snd (makeRequest fetch api ep opts)) \<Longrightarrow>
   headers rq = [(''Content-Type'', Some (JStr ''application/json'')),
                 (''Shortcut-Token'', apiToken (config api))]"
  by (auto simp: makeRequest_def Let_def split: option.splits fetch_result.splits if_splits)

lemma gate_closed:
  assumes "shortcutAPI this = None" and "N \<noteq> ''shortcut_configure''"
  shows "callTool fetch this N args =
           (Inl \<lparr>code = InvalidRequest,
                 message = ''Shortcut API not configured. Please run shortcut_configure first.''\<rparr>,
            this, [])"
  using assms by (simp add: callTool_def callTool_try_def not_configured_def)

text \<open>
  C3.  When the identity probe of a \<^verbatim>\<open>shortcut_configure\<close> call fails with some cause, the
  call fails with an Invalid-Request error whose message embeds that cause, the dispatcher
  is Unconfigured afterwards whatever its state was before, and a following call of any
  tool other than \<^verbatim>\<open>shortcut_configure\<close> fails with the Invalid-Request error of the
  configuration gate, without a request.
\<close>

theorem failed_probe_leaves_unconfigured:
  assumes "fst (getCurrentMember fetch
                  (new_ShortcutAPI \<lparr>apiToken = get_prop a ''apiToken'',
                                    baseUrl = get_prop a ''baseUrl''\<rparr>)) = Inl cause"
      and "N \<noteq> ''shortcut_configure''"
  shows "result_of (callTool fetch this ''shortcut_configure'' (Some a)) =
           Inl \<lparr>code = InvalidRequest, message = ''Failed to configure Shortcut API: '' @ cause\<rparr> \<and>
         shortcutAPI (state_of (callTool fetch this ''shortcut_configure'' (Some a))) = None \<and>
         callTool fetch' (state_of (callTool fetch this ''shortcut_configure'' (Some a))) N args' =
           (Inl \<lparr>code = InvalidRequest,
                 message = ''Shortcut API not configured. Please run shortcut_configure first.''\<rparr>,
            state_of (callTool fetch this ''shortcut_configure'' (Some a)), [])"
proof -
  let ?out = "callTool fetch this ''shortcut_configure'' (Some a)"
  note out = configure_failure [OF assms(1), of this]
  have r: "result_of ?out =
             Inl \<lparr>code = InvalidRequest, message = ''Failed to configure Shortcut API: '' @ cause\<rparr>"
    by (simp only: out result_of_def fst_conv)
  have st: "shortcutAPI (state_of ?out) = None"
    by (simp only: out state_of_def fst_conv snd_conv) simp
  from r st gate_closed [OF st assms(2)] show ?thesis by blast
qed

theorem failed_probe_leaves_unconfigured_witness:
  "result_of (callTool remote_unauthorized unconfigured ''shortcut_configure''
                (Some [(''apiToken'', JStr ''bad'')])) =
     Inl \<lparr>code = InvalidRequest,
          message = ''Failed to configure Shortcut API: Shortcut API error (401): Unauthorized''\<rparr> \<and>
   shortcutAPI (state_of (callTool remote_unauthorized unconfigured ''shortcut_configure''
                (Some [(''apiToken'', JStr ''bad'')]))) = None \<and>
   callTool remote_member
      (state_of (callTool remote_unauthorized unconfigured ''shortcut_configure''
                (Some [(''apiToken'', JStr ''bad'')])))
      ''shortcut_get_current_member'' None =
     (Inl \<lparr>code = InvalidRequest,
           message = ''Shortcut API not configured. Please run shortcut_configure first.''\<rparr>,
      state_of (callTool remote_unauthorized unconfigured ''shortcut_configure''
                (Some [(''apiToken'', JStr ''bad'')])), [])"
proof -
  have h1: "fst (getCurrentMember remote_unauthorized
                  (new_ShortcutAPI \<lparr>apiToken = get_prop [(''apiToken'', JStr ''bad'')] ''apiToken'',
                                    baseUrl = get_prop [(''apiToken'', JStr ''bad'')] ''baseUrl''\<rparr>)) =
            Inl ''Shortcut API error (401): Unauthorized''"
    by code_simp
  have h2: "''shortcut_get_current_member'' \<noteq> ''shortcut_configure''" by simp
  from failed_probe_leaves_unconfigured [OF h1 h2, of unconfigured remote_member None]
  show ?thesis by simp
qed

text \<open>
  C7.  When the identity probe of a \<^verbatim>\<open>shortcut_configure\<close> call succeeds with a payload,
  the call returns the success message and the dispatcher holds the new client; a following
  \<^verbatim>\<open>shortcut_get_current_member\<close> call against the same remote function succeeds and
  returns that payload, pretty-printed.
\<close>

theorem configure_then_current_member:
  assumes "fst (getCurrentMember fetch
                  (new_ShortcutAPI \<lparr>apiToken = get_prop a ''apiToken'',
                                    baseUrl = get_prop a ''baseUrl''\<rparr>)) = Inr member"
  shows "result_of (callTool fetch this ''shortcut_configure'' (Some a)) =
           Inr (text_content ''Shortcut API configured successfully!'') \<and>
         shortcutAPI (state_of (callTool fetch this ''shortcut_configure'' (Some a))) =
           Some (new_ShortcutAPI \<lparr>apiToken = get_prop a ''apiToken'',
                                    baseUrl = get_prop a ''baseUrl''\<rparr>) \<and>
         result_of (callTool fetch (state_of (callTool fetch this ''shortcut_configure'' (Some a)))
                      ''shortcut_get_current_member'' args') =
           Inr (text_content (JSON_stringify2 member))"
proof -
  let ?out = "callTool fetch this ''shortcut_configure'' (Some a)"
  let ?api = "new_ShortcutAPI \<lparr>apiToken = get_prop a ''apiToken'', baseUrl = get_prop a ''baseUrl''\<rparr>"
  note out = configure_success [OF assms, of this]
  have r: "result_of ?out = Inr (text_content ''Shortcut API configured successfully!'')"
    by (simp only: out result_of_def fst_conv)
  have st: "shortcutAPI (state_of ?out) = Some ?api"
    by (simp only: out state_of_def fst_conv snd_conv) simp
  have "callTool fetch (state_of ?out) ''shortcut_get_current_member'' args' =
          (Inr (text_content (JSON_stringify2 member)), state_of ?out,
           snd (getCurrentMember fetch ?api))"
    by (rule current_member_configured [OF st assms])
  then have n: "result_of (callTool fetch (state_of ?out) ''shortcut_get_current_member'' args') =
          Inr (text_content (JSON_stringify2 member))"
    by (simp only: result_of_def fst_conv)
  from r st n show ?thesis by blast
qed

theorem configure_then_current_member_witness:
  "result_of (callTool remote_member unconfigured ''shortcut_configure''
                (Some [(''apiToken'', JStr ''token'')])) =
     Inr (text_content ''Shortcut API configured successfully!'') \<and>
   state_of (callTool remote_member unconfigured ''shortcut_configure''
                (Some [(''apiToken'', JStr ''token'')])) = configured \<and>
   result_of (callTool remote_member configured ''shortcut_get_current_member'' None) =
     Inr (text_content (JSON_stringify2 sample_member))"
proof -
  have h: "fst (getCurrentMember remote_member
                  (new_ShortcutAPI \<lparr>apiToken = get_prop [(''apiToken'', JStr ''token'')] ''apiToken'',
                                    baseUrl = get_prop [(''apiToken'', JStr ''token'')] ''baseUrl''\<rparr>)) =
            Inr sample_member"
    by (simp add: getCurrentMember_def makeRequest_def new_ShortcutAPI_def get_prop_def
          default_baseUrl_def remote_member_def ok_def)
  have s: "state_of (callTool remote_member unconfigured ''shortcut_configure''
                (Some [(''apiToken'', JStr ''token'')])) = configured"
    by code_simp
  from configure_then_current_member [OF h, of unconfigured None] s
  show ?thesis by simp
qed

text \<open>
  C8.  A \<^verbatim>\<open>shortcut_configure\<close> call whose probe fails, made while the dispatcher is
  Configured, leaves the dispatcher Unconfigured: the earlier client is not restored.  The
  probe is issued by the new client, with the new token, since the field is overwritten
  before the probe.
\<close>

theorem reconfigure_failure_discards_client:
  assumes "shortcutAPI this = Some old"
      and "fst (getCurrentMember fetch
                  (new_ShortcutAPI \<lparr>apiToken = get_prop a ''apiToken'',
                                    baseUrl = get_prop a ''baseUrl''\<rparr>)) = Inl cause"
  shows "shortcutAPI (state_of (callTool fetch this ''shortcut_configure'' (Some a))) = None \<and>
         shortcutAPI (state_of (callTool fetch this ''shortcut_configure'' (Some a))) \<noteq> Some old \<and>
         requests_of (callTool fetch this ''shortcut_configure'' (Some a)) =
           snd (getCurrentMember fetch
                  (new_ShortcutAPI \<lparr>apiToken = get_prop a ''apiToken'',
                                    baseUrl = get_prop a ''baseUrl''\<rparr>)) \<and>
         (\<forall>rq \<in> set (requests_of (callTool fetch this ''shortcut_configure'' (Some a))).
            headers rq = [(''Content-Type'', Some (JStr ''application/json'')),
                          (''Shortcut-Token'', get_prop a ''apiToken'')])"
proof -
  let ?out = "callTool fetch this ''shortcut_configure'' (Some a)"
  let ?api = "new_ShortcutAPI \<lparr>apiToken = get_prop a ''apiToken'', baseUrl = get_prop a ''baseUrl''\<rparr>"
  note out = configure_failure [OF assms(2), of this]
  have st: "shortcutAPI (state_of ?out) = None"
    by (simp only: out state_of_def fst_conv snd_conv) simp
  have rs: "requests_of ?out = snd (getCurrentMember fetch ?api)"
    by (simp only: out requests_of_def snd_conv)
  have tok: "apiToken (config ?api) = get_prop a ''apiToken''"
    by (simp add: new_ShortcutAPI_def)
  have hd: "\<forall>rq \<in> set (requests_of ?out).
              headers rq = [(''Content-Type'', Some (JStr ''application/json'')),
                            (''Shortcut-Token'', get_prop a ''apiToken'')]"
    unfolding rs getCurrentMember_def using makeRequest_headers [of _ fetch ?api] tok by metis
  from st rs hd show ?thesis by simp
qed

theorem reconfigure_failure_discards_client_witness:
  "shortcutAPI configured = Some sample_client \<and>
   shortcutAPI (state_of (callTool remote_unauthorized configured ''shortcut_configure''
                            (Some [(''apiToken'', JStr ''bad'')]))) = None \<and>
   requests_of (callTool remote_unauthorized configured ''shortcut_configure''
                            (Some [(''apiToken'', JStr ''bad'')])) =
     [\<lparr>url = ''https://api.app.shortcut.com/api/v3/member'', http_method = ''GET'',
       headers = [(''Content-Type'', Some (JStr ''application/json'')),
                  (''Shortcut-Token'', Some (JStr ''bad''))],
       body = None\<rparr>]"
proof -
  have h1: "shortcutAPI configured = Some sample_client" by (simp add: configured_def)
  have h2: "fst (getCurrentMember remote_unauthorized
                  (new_ShortcutAPI \<lparr>apiToken = get_prop [(''apiToken'', JStr ''bad'')] ''apiToken'',
                                    baseUrl = get_prop [(''apiToken'', JStr ''bad'')] ''baseUrl''\<rparr>)) =
            Inl ''Shortcut API error (401): Unauthorized''"
    by code_simp
  have h3: "snd (getCurrentMember remote_unauthorized
                  (new_ShortcutAPI \<lparr>apiToken = get_prop [(''apiToken'', JStr ''bad'')] ''apiToken'',
                                    baseUrl = get_prop [(''apiToken'', JStr ''bad'')] ''baseUrl''\<rparr>)) =
     [\<lparr>url = ''https://api.app.shortcut.com/api/v3/member'', http_method = ''GET'',
       headers = [(''Content-Type'', Some (JStr ''application/json'')),
                  (''Shortcut-Token'', Some (JStr ''bad''))],
       body = None\<rparr>]"
    by code_simp
  from reconfigure_failure_discards_client [OF h1 h2] h1 h3
  show ?thesis by simp
qed


section \<open>The requests a call issues\<close>

lemma requests_of_callTool:
  "requests_of (callTool fetch this N args) = snd (snd (callTool_try fetch this N args))"
  by (cases "callTool_try fetch this N args")
     (simp add: callTool_def requests_of_def split: sum.splits exn.splits)

lemma snd_reply: "snd (reply fmt r) = snd r"
  by (cases r) (simp add: reply_def split: sum.splits)

lemma with_api_Some: "shortcutAPI this = Some api \<Longrightarrow> with_api this m f = f api"
  by (simp add: with_api_def)

lemma snd_makeRequest:
  assumes "ToString_json (api_baseUrl api) = Some base"
  shows "snd (makeRequest fetch api ep opts) =
           [\<lparr>url = base @ ep,
             http_method = (case opt_method opts of None \<Rightarrow> ''GET'' | Some m \<Rightarrow> m),
             headers = [(''Content-Type'', Some (JStr ''application/json'')),
                        (''Shortcut-Token'', apiToken (config api))],
             body = opt_body opts\<rparr>]"
  using assms by (simp add: makeRequest_def Let_def split: fetch_result.splits)

lemma snd_request_by_id:
  assumes "ToString_json (api_baseUrl api) = Some base" and "ToString i = Some s"
  shows "snd (request_by_id fetch api p i opts) =
           [\<lparr>url = base @ p @ s,
             http_method = (case opt_method opts of None \<Rightarrow> ''GET'' | Some m \<Rightarrow> m),
             headers = [(''Content-Type'', Some (JStr ''application/json'')),
                        (''Shortcut-Token'', apiToken (config api))],
             body = opt_body opts\<rparr>]"
  using assms by (simp add: request_by_id_def snd_makeRequest)

lemma makeRequest_request:
  assumes "rq \<in> set (snd (makeRequest fetch api ep opts))"
  shows "\<exists>base. ToString_json (api_baseUrl api) = Some base \<and>
                url rq = base @ ep \<and> body rq = opt_body opts"
  using assms
  by (auto simp: makeRequest_def Let_def split: option.splits fetch_result.splits if_splits)

lemma snd_deleteStory:
  "snd (deleteStory fetch api i) =
     snd (request_by_id fetch api ''/stories/'' i \<lparr>opt_method = Some ''DELETE'', opt_body = None\<rparr>)"
  by (cases "request_by_id fetch api ''/stories/'' i \<lparr>opt_method = Some ''DELETE'', opt_body = None\<rparr>")
     (simp add: deleteStory_def split: sum.splits)

lemma snd_handleConfigure:
  "snd (snd (handleConfigure fetch this (Some a))) =
     snd (getCurrentMember fetch
            (new_ShortcutAPI \<lparr>apiToken = get_prop a ''apiToken'', baseUrl = get_prop a ''baseUrl''\<rparr>))"
  by (cases "getCurrentMember fetch
            (new_ShortcutAPI \<lparr>apiToken = get_prop a ''apiToken'', baseUrl = get_prop a ''baseUrl''\<rparr>)")
     (simp add: handleConfigure_def split: sum.splits)

section \<open>Non-success responses\<close>

lemma op_surfaces_none [simp]: "op_surfaces fetch (x, [])"
  by (simp add: op_surfaces_def)

lemma handler_surfaces_none [simp]: "handler_surfaces fetch (x, [])"
  by (simp add: handler_surfaces_def)

lemma makeRequest_surfaces [simp]: "op_surfaces fetch (makeRequest fetch api ep opts)"
  by (auto simp: op_surfaces_def makeRequest_def Let_def split: option.splits fetch_result.splits)

lemma request_by_id_surfaces [simp]: "op_surfaces fetch (request_by_id fetch api p i opts)"
  by (simp add: request_by_id_def split: option.splits)

lemma deleteStory_surfaces [simp]: "op_surfaces fetch (deleteStory fetch api i)"
proof -
  have "op_surfaces fetch (request_by_id fetch api ''/stories/'' i
           \<lparr>opt_method = Some ''DELETE'', opt_body = None\<rparr>)" (is "op_surfaces fetch ?r")
    by simp
  then show ?thesis
    by (cases ?r) (auto simp: op_surfaces_def deleteStory_def split: sum.splits)
qed

lemma getStories_surfaces [simp]: "op_surfaces fetch (getStories fetch api params)"
  by (simp add: getStories_def Let_def split: sum.splits)

lemma search_surfaces [simp]: "op_surfaces fetch (search fetch api q d)"
  by (simp add: search_def split: option.splits)

lemma ops_surface [simp]:
  "op_surfaces fetch (getStory fetch api i)"
  "op_surfaces fetch (createStory fetch api a)"
  "op_surfaces fetch (updateStory fetch api i u)"
  "op_surfaces fetch (getEpics fetch api)"
  "op_surfaces fetch (getEpic fetch api i)"
  "op_surfaces fetch (createEpic fetch api a)"
  "op_surfaces fetch (updateEpic fetch api i u)"
  "op_surfaces fetch (getProjects fetch api)"
  "op_surfaces fetch (getProject fetch api i)"
  "op_surfaces fetch (createProject fetch api a)"
  "op_surfaces fetch (getMembers fetch api)"
  "op_surfaces fetch (getCurrentMember fetch api)"
  "op_surfaces fetch (getLabels fetch api)"
  "op_surfaces fetch (createLabel fetch api a)"
  "op_surfaces fetch (getIterations fetch api)"
  "op_surfaces fetch (getIteration fetch api i)"
  "op_surfaces fetch (createIteration fetch api a)"
  "op_surfaces fetch (getWorkflows fetch api)"
  by (simp_all add: getStory_def createStory_def updateStory_def getEpics_def getEpic_def
        createEpic_def updateEpic_def getProjects_def getProject_def createProject_def
        getMembers_def getCurrentMember_def getLabels_def createLabel_def getIterations_def
        getIteration_def createIteration_def getWorkflows_def)

lemma reply_surfaces [simp]:
  "op_surfaces fetch r \<Longrightarrow> handler_surfaces fetch (reply fmt r)"
  by (cases r) (auto simp: op_surfaces_def handler_surfaces_def reply_def split: sum.splits)

lemma with_api_surfaces [simp]:
  "(\<And>api. handler_surfaces fetch (f api)) \<Longrightarrow> handler_surfaces fetch (with_api this m f)"
  by (simp add: with_api_def split: option.splits)

lemma handlers_surface [simp]:
  "handler_surfaces fetch (handleGetStories fetch this args)"
  "handler_surfaces fetch (handleGetStory fetch this args)"
  "handler_surfaces fetch (handleCreateStory fetch this args)"
  "handler_surfaces fetch (handleUpdateStory fetch this args)"
  "handler_surfaces fetch (handleDeleteStory fetch this args)"
  "handler_surfaces fetch (handleGetEpics fetch this)"
  "handler_surfaces fetch (handleGetEpic fetch this args)"
  "handler_surfaces fetch (handleCreateEpic fetch this args)"
  "handler_surfaces fetch (handleUpdateEpic fetch this args)"
  "handler_surfaces fetch (handleGetProjects fetch this)"
  "handler_surfaces fetch (handleGetProject fetch this args)"
  "handler_surfaces fetch (handleCreateProject fetch this args)"
  "handler_surfaces fetch (handleGetMembers fetch this)"
  "handler_surfaces fetch (handleGetCurrentMember fetch this)"
  "handler_surfaces fetch (handleGetLabels fetch this)"
  "handler_surfaces fetch (handleCreateLabel fetch this args)"
  "handler_surfaces fetch (handleGetIterations fetch this)"
  "handler_surfaces fetch (handleGetIteration fetch this args)"
  "handler_surfaces fetch (handleCreateIteration fetch this args)"
  "handler_surfaces fetch (handleSearch fetch this args)"
  "handler_surfaces fetch (handleGetWorkflows fetch this)"
  by (simp_all add: handleGetStories_def handleGetStory_def handleCreateStory_def
        handleUpdateStory_def handleDeleteStory_def handleGetEpics_def handleGetEpic_def
        handleCreateEpic_def handleUpdateEpic_def handleGetProjects_def handleGetProject_def
        handleCreateProject_def handleGetMembers_def handleGetCurrentMember_def
        handleGetLabels_def handleCreateLabel_def handleGetIterations_def handleGetIteration_def
        handleCreateIteration_def handleSearch_def handleGetWorkflows_def
        split: option.splits)

lemma callTool_try_surfaces:
  assumes "N \<noteq> ''shortcut_configure''"
  shows "fst (snd (callTool_try fetch this N args)) = this \<and>
         handler_surfaces fetch
           (fst (callTool_try fetch this N args), snd (snd (callTool_try fetch this N args)))"
  using assms by (simp add: callTool_try_def keep_def)

text \<open>
  C4.  When a call of any tool other than \<^verbatim>\<open>shortcut_configure\<close> issues a request that is
  answered with a non-success status, the client operation fails with the error
  \<^verbatim>\<open>Shortcut API error (status): body text\<close>, that request is the only one issued (nothing
  is retried), the dispatcher's state is unchanged, and the caller receives an
  Internal-Error whose message names the tool and carries that error message.
\<close>

theorem non_success_status_surfaces:
  assumes "N \<noteq> ''shortcut_configure''"
      and "rq \<in> set (requests_of (callTool fetch this N args))"
      and "fetch rq = Resolved resp" and "\<not> ok resp"
  shows "callTool fetch this N args =
           (Inl \<lparr>code = InternalError,
                 message = ''Error executing '' @ N @ '': Shortcut API error ('' @
                           show_nat (status resp) @ ''): '' @ body_text resp\<rparr>,
            this, [rq])"
proof -
  obtain r this' rs where t: "callTool_try fetch this N args = (r, this', rs)"
    by (cases "callTool_try fetch this N args") auto
  from callTool_try_surfaces [OF assms(1), of fetch this args] t
  have st: "this' = this" and hs: "handler_surfaces fetch (r, rs)" by simp_all
  have "requests_of (callTool fetch this N args) = rs"
    by (simp add: requests_of_callTool t)
  with assms(2) have "rq \<in> set rs" by simp
  with hs assms(3,4) have "(r, rs) = (Inl (JsErr (api_error resp)), [rq])"
    unfolding handler_surfaces_def by auto
  with t st show ?thesis by (simp add: callTool_def api_error_def)
qed

section \<open>Story operations\<close>

text \<open>
  C5, at the input where the code departs from it.  The remote service answers the DELETE
  of story 7 with the success status 204 and an empty body.  \<^verbatim>\<open>makeRequest\<close> still
  parses the body as JSON, so \<^verbatim>\<open>deleteStory\<close> fails and the tool returns an
  Internal-Error instead of the confirmation text.
\<close>

theorem non_success_status_surfaces_witness:
  "''shortcut_get_story'' \<noteq> ''shortcut_configure'' \<and>
   \<not> ok \<lparr>status = 401, body_text = ''Unauthorized'',
           body_json = Inl ''Unexpected token U in JSON at position 0''\<rparr> \<and>
   callTool remote_unauthorized configured ''shortcut_get_story'' (Some [(''id'', JNum 7)]) =
     (Inl \<lparr>code = InternalError,
           message = ''Error executing shortcut_get_story: Shortcut API error (401): Unauthorized''\<rparr>,
      configured,
      [\<lparr>url = ''https://api.app.shortcut.com/api/v3/stories/7'', http_method = ''GET'',
        headers = [(''Content-Type'', Some (JStr ''application/json'')),
                   (''Shortcut-Token'', Some (JStr ''token''))],
        body = None\<rparr>])"
proof -
  let ?rq = "\<lparr>url = ''https://api.app.shortcut.com/api/v3/stories/7'', http_method = ''GET'',
        headers = [(''Content-Type'', Some (JStr ''application/json'')),
                   (''Shortcut-Token'', Some (JStr ''token''))],
        body = None\<rparr>"
  let ?resp = "\<lparr>status = 401, body_text = ''Unauthorized'',
           body_json = Inl ''Unexpected token U in JSON at position 0''\<rparr>"
  have h1: "''shortcut_get_story'' \<noteq> ''shortcut_configure''" by simp
  have h2: "?rq \<in> set (requests_of (callTool remote_unauthorized configured ''shortcut_get_story''
                                     (Some [(''id'', JNum 7)])))"
    by code_simp
  have h3: "remote_unauthorized ?rq = Resolved ?resp" by (simp add: remote_unauthorized_def)
  have h4: "\<not> ok ?resp" by (simp add: ok_def)
  have n: "show_nat 401 = ''401''" by code_simp
  from non_success_status_surfaces [OF h1 h2 h3 h4] h1 h4 n
  show ?thesis by simp
qed

theorem delete_story_fails_on_empty_body:
  "ok \<lparr>status = 204, body_text = [], body_json = Inl ''Unexpected end of JSON input''\<rparr> \<and>
   callTool remote_no_content configured ''shortcut_delete_story'' (Some [(''id'', JNum 7)]) =
     (Inl \<lparr>code = InternalError,
           message = ''Error executing shortcut_delete_story: Unexpected end of JSON input''\<rparr>,
      configured,
      [\<lparr>url = ''https://api.app.shortcut.com/api/v3/stories/7'', http_method = ''DELETE'',
        headers = [(''Content-Type'', Some (JStr ''application/json'')),
                   (''Shortcut-Token'', Some (JStr ''token''))],
        body = None\<rparr>])"
  by code_simp

text \<open>When the body of the success response does parse, the same call returns the
  confirmation text with the identifier and has issued the DELETE request only.\<close>

lemma delete_story_confirms_with_json_body:
  assumes "shortcutAPI this = Some api"
      and "ToString_json (api_baseUrl api) = Some base"
      and "ToString (get_prop a ''id'') = Some s"
      and "fetch \<lparr>url = base @ ''/stories/'' @ s, http_method = ''DELETE'',
                  headers = [(''Content-Type'', Some (JStr ''application/json'')),
                             (''Shortcut-Token'', apiToken (config api))],
                  body = None\<rparr> = Resolved resp"
      and "ok resp" and "body_json resp = Inr v"
  shows "callTool fetch this ''shortcut_delete_story'' (Some a) =
           (Inr (text_content (''Story '' @ s @ '' deleted successfully!'')), this,
            [\<lparr>url = base @ ''/stories/'' @ s, http_method = ''DELETE'',
              headers = [(''Content-Type'', Some (JStr ''application/json'')),
                         (''Shortcut-Token'', apiToken (config api))],
              body = None\<rparr>])"
  using assms
  by (simp add: callTool_def callTool_try_def keep_def handleDeleteStory_def with_api_def
        reply_def deleteStory_def request_by_id_def makeRequest_def Let_def)

lemma map_of_rest_without: "map_of (rest_without x a) = (map_of a)(x := None)"
  by (induction a) (auto simp: rest_without_def fun_eq_iff)

text \<open>
  C6.  In the Configured state, an \<^verbatim>\<open>shortcut_update_story\<close> call whose argument object
  has an \<open>id\<close> issues exactly one request: a PUT to \<^verbatim>\<open>/stories/{id}\<close> under the client's
  base URL, whose body is the JSON text of the argument object without its \<open>id\<close> property;
  every other property is kept with its value.  The base URL and the identifier are values
  that convert to strings, as a number or a string does.
\<close>

theorem update_story_request:
  assumes "shortcutAPI this = Some api"
      and "ToString_json (api_baseUrl api) = Some base"
      and "get_prop a ''id'' = Some i"
      and "ToString_json i = Some s"
  shows "requests_of (callTool fetch this ''shortcut_update_story'' (Some a)) =
           [\<lparr>url = base @ ''/stories/'' @ s, http_method = ''PUT'',
             headers = [(''Content-Type'', Some (JStr ''application/json'')),
                        (''Shortcut-Token'', apiToken (config api))],
             body = Some (JSON_stringify (JObj (rest_without ''id'' a)))\<rparr>] \<and>
         rest_without ''id'' a = filter (\<lambda>(k, v). k \<noteq> ''id'') a \<and>
         map_of (rest_without ''id'' a) = (map_of a)(''id'' := None)"
proof -
  have "ToString (get_prop a ''id'') = Some s"
    using assms(3,4) by (simp add: ToString_def)
  then have "snd (updateStory fetch api (get_prop a ''id'') (rest_without ''id'' a)) =
           [\<lparr>url = base @ ''/stories/'' @ s, http_method = ''PUT'',
             headers = [(''Content-Type'', Some (JStr ''application/json'')),
                        (''Shortcut-Token'', apiToken (config api))],
             body = Some (JSON_stringify (JObj (rest_without ''id'' a)))\<rparr>]"
    by (simp add: updateStory_def snd_request_by_id [OF assms(2)])
  then show ?thesis
    using assms(1)
    by (simp add: requests_of_callTool callTool_try_def keep_def handleUpdateStory_def
          with_api_Some snd_reply map_of_rest_without)
       (simp add: rest_without_def)
qed

theorem update_story_request_witness:
  "shortcutAPI configured = Some sample_client \<and>
   requests_of (callTool remote_member configured ''shortcut_update_story''
                  (Some [(''id'', JNum 42), (''estimate'', JNum 3)])) =
     [\<lparr>url = ''https://api.app.shortcut.com/api/v3/stories/42'', http_method = ''PUT'',
       headers = [(''Content-Type'', Some (JStr ''application/json'')),
                  (''Shortcut-Token'', Some (JStr ''token''))],
       body = Some (''{'' @ [CHR 0x22] @ ''estimate'' @ [CHR 0x22] @ '':3}'')\<rparr>]"
proof -
  have h1: "shortcutAPI configured = Some sample_client" by (simp add: configured_def)
  have h2: "ToString_json (api_baseUrl sample_client) = Some ''https://api.app.shortcut.com/api/v3''"
    by (simp add: sample_client_def new_ShortcutAPI_def default_baseUrl_def)
  have h3: "get_prop [(''id'', JNum 42), (''estimate'', JNum 3)] ''id'' = Some (JNum 42)"
    by (simp add: get_prop_def)
  have h4: "ToString_json (JNum 42) = Some ''42''" by code_simp
  have t: "apiToken (config sample_client) = Some (JStr ''token'')"
    by (simp add: sample_client_def new_ShortcutAPI_def)
  have b: "JSON_stringify (JObj (rest_without ''id'' [(''id'', JNum 42), (''estimate'', JNum 3)])) =
           ''{'' @ [CHR 0x22] @ ''estimate'' @ [CHR 0x22] @ '':3}''"
    by code_simp
  from update_story_request [OF h1 h2 h3 h4, of remote_member] h1 t b
  show ?thesis by simp
qed

lemma append_param_names:
  assumes "append_param params k sp = Inr sp'" and "f \<notin> fst ` set sp"
      and "\<not> truthy (opt_prop params f)"
  shows "f \<notin> fst ` set sp'"
  using assms
  by (force simp: append_param_def split: option.splits if_splits sum.splits)

lemma searchParams_omit_falsy:
  assumes "getStories_searchParams params = Inr sp" and "\<not> truthy (opt_prop params f)"
  shows "f \<notin> fst ` set sp"
proof -
  from assms(1) obtain sp1 sp2 where
    1: "append_param params ''project_id'' [] = Inr sp1" and
    2: "append_param params ''epic_id'' sp1 = Inr sp2" and
    3: "append_param params ''workflow_state_id''
          (if truthy (opt_prop params ''includes_description'')
           then sp2 @ [(''includes_description'', ''true'')] else sp2) = Inr sp"
    by (auto simp: getStories_searchParams_def split: sum.splits)
  have a: "f \<notin> fst ` set sp1"
    by (rule append_param_names [OF 1 _ assms(2)]) simp
  have b: "f \<notin> fst ` set sp2"
    by (rule append_param_names [OF 2 a assms(2)])
  have c: "f \<notin> fst ` set (if truthy (opt_prop params ''includes_description'')
                         then sp2 @ [(''includes_description'', ''true'')] else sp2)"
    using b assms(2) by auto
  show ?thesis
    by (rule append_param_names [OF 3 c assms(2)])
qed

lemma join_contains:
  "x \<in> set xs \<Longrightarrow> \<exists>pre post. join sep xs = pre @ x @ post"
proof (induction sep xs rule: join.induct)
  case (1 sep)
  then show ?case by simp
next
  case (2 sep y)
  then have "join sep [y] = [] @ x @ []" by simp
  then show ?case by blast
next
  case (3 sep y z zs)
  show ?case
  proof (cases "x = y")
    case True
    then have "join sep (y # z # zs) = [] @ x @ (sep @ join sep (z # zs))" by simp
    then show ?thesis by blast
  next
    case False
    with 3 obtain pre post where "join sep (z # zs) = pre @ x @ post" by auto
    then have "join sep (y # z # zs) = (y @ sep @ pre) @ x @ post" by simp
    then show ?thesis by blast
  qed
qed

lemma stringify_contains_field:
  assumes "(k, v) \<in> set a"
  shows "\<exists>pre post. JSON_stringify (JObj a) = pre @ quote k @ '':'' @ JSON_stringify v @ post"
proof -
  let ?g = "\<lambda>(k, v). quote k @ '':'' @ JSON_stringify v"
  from assms have "?g (k, v) \<in> set (map ?g a)" by force
  from join_contains [OF this, of "'',''"]
  obtain pre post where "join '','' (map ?g a) = pre @ ?g (k, v) @ post" by blast
  then have "JSON_stringify (JObj a) = (''{'' @ pre) @ quote k @ '':'' @ JSON_stringify v @ (post @ ''}'')"
    by simp
  then show ?thesis by blast
qed

text \<open>
  C9.  In \<^verbatim>\<open>shortcut_get_stories\<close>, a property of the argument object whose value is falsy
  (such as \<open>project_id\<close> 0 or \<open>includes_description\<close> false) is not among the parameters of
  the request URL's query string, yet the request body is the JSON text of the whole
  argument object, in which the property appears with its value.
\<close>

theorem get_stories_falsy_filter:
  assumes "shortcutAPI this = Some api"
      and "get_prop a f = Some v" and "\<not> truthy (Some v)"
      and "rq \<in> set (requests_of (callTool fetch this ''shortcut_get_stories'' (Some a)))"
  shows "\<exists>base sp pre post.
           ToString_json (api_baseUrl api) = Some base \<and>
           getStories_searchParams (Some a) = Inr sp \<and>
           f \<notin> fst ` set sp \<and>
           url rq = base @ ''/stories/search'' @
                    (if URLSearchParams_toString sp \<noteq> []
                     then ''?'' @ URLSearchParams_toString sp else []) \<and>
           body rq = Some (JSON_stringify (JObj a)) \<and>
           JSON_stringify (JObj a) = pre @ quote f @ '':'' @ JSON_stringify v @ post"
proof -
  from assms(1,4) have rq: "rq \<in> set (snd (getStories fetch api (Some a)))"
    by (simp add: requests_of_callTool callTool_try_def keep_def handleGetStories_def
          with_api_Some snd_reply)
  then obtain sp where sp: "getStories_searchParams (Some a) = Inr sp"
    by (cases "getStories_searchParams (Some a)") (auto simp: getStories_def)
  let ?q = "if URLSearchParams_toString sp \<noteq> [] then ''?'' @ URLSearchParams_toString sp else []"
  from rq sp have "rq \<in> set (snd (makeRequest fetch api (''/stories/search'' @ ?q)
                     \<lparr>opt_method = Some ''POST'', opt_body = Some (JSON_stringify (JObj a))\<rparr>))"
    by (simp add: getStories_def Let_def)
  from makeRequest_request [OF this] obtain base where
    base: "ToString_json (api_baseUrl api) = Some base" and
    u: "url rq = base @ ''/stories/search'' @ ?q" and
    b: "body rq = Some (JSON_stringify (JObj a))"
    by auto
  from assms(2,3) have "\<not> truthy (opt_prop (Some a) f)" by (simp add: opt_prop_def)
  from searchParams_omit_falsy [OF sp this] have om: "f \<notin> fst ` set sp" .
  from assms(2) have "(f, v) \<in> set a" by (simp add: get_prop_def map_of_SomeD)
  from stringify_contains_field [OF this] obtain pre post where
    "JSON_stringify (JObj a) = pre @ quote f @ '':'' @ JSON_stringify v @ post" by blast
  with base sp om u b show ?thesis by blast
qed

section \<open>Required fields\<close>

theorem get_stories_falsy_filter_witness:
  "shortcutAPI configured = Some sample_client \<and>
   get_prop [(''project_id'', JNum 0), (''includes_description'', JBool False)] ''project_id'' =
     Some (JNum 0) \<and>
   \<not> truthy (Some (JNum 0)) \<and>
   requests_of (callTool remote_member configured ''shortcut_get_stories''
                  (Some [(''project_id'', JNum 0), (''includes_description'', JBool False)])) =
     [\<lparr>url = ''https://api.app.shortcut.com/api/v3/stories/search'', http_method = ''POST'',
       headers = [(''Content-Type'', Some (JStr ''application/json'')),
                  (''Shortcut-Token'', Some (JStr ''token''))],
       body = Some (''{'' @ [CHR 0x22] @ ''project_id'' @ [CHR 0x22] @ '':0,'' @
                    [CHR 0x22] @ ''includes_description'' @ [CHR 0x22] @ '':false}'')\<rparr>] \<and>
   (\<exists>pre post.
      JSON_stringify (JObj [(''project_id'', JNum 0), (''includes_description'', JBool False)]) =
        pre @ quote ''project_id'' @ '':'' @ JSON_stringify (JNum 0) @ post)"
proof -
  let ?a = "[(''project_id'', JNum 0), (''includes_description'', JBool False)]"
  let ?rq = "\<lparr>url = ''https://api.app.shortcut.com/api/v3/stories/search'', http_method = ''POST'',
       headers = [(''Content-Type'', Some (JStr ''application/json'')),
                  (''Shortcut-Token'', Some (JStr ''token''))],
       body = Some (''{'' @ [CHR 0x22] @ ''project_id'' @ [CHR 0x22] @ '':0,'' @
                    [CHR 0x22] @ ''includes_description'' @ [CHR 0x22] @ '':false}'')\<rparr>"
  have h1: "shortcutAPI configured = Some sample_client" by (simp add: configured_def)
  have h2: "get_prop ?a ''project_id'' = Some (JNum 0)" by (simp add: get_prop_def)
  have h3: "\<not> truthy (Some (JNum 0))" by simp
  have rs: "requests_of (callTool remote_member configured ''shortcut_get_stories'' (Some ?a)) = [?rq]"
    by code_simp
  then have h4: "?rq \<in> set (requests_of (callTool remote_member configured
                                ''shortcut_get_stories'' (Some ?a)))"
    by simp
  from get_stories_falsy_filter [OF h1 h2 h3 h4] h1 h2 h3 rs
  show ?thesis by blast
qed

lemma new_client_base:
  assumes "\<forall>(k, v) \<in> set a. ToString_json v \<noteq> None"
  shows "\<exists>b. ToString_json (api_baseUrl (new_ShortcutAPI
                 \<lparr>apiToken = t, baseUrl = get_prop a ''baseUrl''\<rparr>)) = Some b"
proof (cases "get_prop a ''baseUrl''")
  case None
  then show ?thesis by (simp add: new_ShortcutAPI_def)
next
  case (Some v)
  then have "(''baseUrl'', v) \<in> set a" by (simp add: get_prop_def map_of_SomeD)
  with assms have "ToString_json v \<noteq> None" by auto
  with Some show ?thesis by (auto simp: new_ShortcutAPI_def)
qed

lemma detail_converts:
  assumes "\<forall>(k, v) \<in> set a. ToString_json v \<noteq> None"
  shows "\<exists>d. ToString (case get_prop a ''detail'' of None \<Rightarrow> Some (JStr ''full'') | Some d \<Rightarrow> Some d) = Some d"
proof (cases "get_prop a ''detail''")
  case None
  then show ?thesis by (simp add: ToString_def)
next
  case (Some v)
  then have "(''detail'', v) \<in> set a" by (simp add: get_prop_def map_of_SomeD)
  with assms have "ToString_json v \<noteq> None" by auto
  with Some show ?thesis by (auto simp: ToString_def)
qed

lemma undefined_id: "get_prop a ''id'' = None \<Longrightarrow> ToString (get_prop a ''id'') = Some ''undefined''"
  by (simp add: ToString_def)

lemma by_id_requests:
  assumes "shortcutAPI this = Some api" and "ToString_json (api_baseUrl api) = Some base"
      and "get_prop a ''id'' = None"
  shows "requests_of (callTool fetch this ''shortcut_get_story'' (Some a)) =
           [\<lparr>url = base @ ''/stories/'' @ ''undefined'', http_method = ''GET'',
             headers = [(''Content-Type'', Some (JStr ''application/json'')),
                        (''Shortcut-Token'', apiToken (config api))],
             body = None\<rparr>]"
    and "\<exists>rq. requests_of (callTool fetch this ''shortcut_update_story'' (Some a)) = [rq] \<and>
              url rq = base @ ''/stories/'' @ ''undefined''"
    and "\<exists>rq. requests_of (callTool fetch this ''shortcut_delete_story'' (Some a)) = [rq] \<and>
              url rq = base @ ''/stories/'' @ ''undefined''"
    and "\<exists>rq. requests_of (callTool fetch this ''shortcut_get_epic'' (Some a)) = [rq] \<and>
              url rq = base @ ''/epics/'' @ ''undefined''"
    and "\<exists>rq. requests_of (callTool fetch this ''shortcut_update_epic'' (Some a)) = [rq] \<and>
              url rq = base @ ''/epics/'' @ ''undefined''"
    and "\<exists>rq. requests_of (callTool fetch this ''shortcut_get_project'' (Some a)) = [rq] \<and>
              url rq = base @ ''/projects/'' @ ''undefined''"
    and "\<exists>rq. requests_of (callTool fetch this ''shortcut_get_iteration'' (Some a)) = [rq] \<and>
              url rq = base @ ''/iterations/'' @ ''undefined''"
  using assms(1)
  by (simp_all add: requests_of_callTool callTool_try_def keep_def with_api_Some snd_reply
        handleGetStory_def handleUpdateStory_def handleDeleteStory_def handleGetEpic_def
        handleUpdateEpic_def handleGetProject_def handleGetIteration_def
        getStory_def updateStory_def snd_deleteStory getEpic_def updateEpic_def getProject_def
        getIteration_def no_options_def
        snd_request_by_id [OF assms(2) undefined_id [OF assms(3)]])

lemma body_requests:
  assumes "shortcutAPI this = Some api" and "ToString_json (api_baseUrl api) = Some base"
  shows "\<exists>rq. requests_of (callTool fetch this ''shortcut_create_story'' (Some a)) = [rq] \<and>
              body rq = Some (JSON_stringify (JObj a))"
    and "\<exists>rq. requests_of (callTool fetch this ''shortcut_create_epic'' (Some a)) = [rq] \<and>
              body rq = Some (JSON_stringify (JObj a))"
    and "\<exists>rq. requests_of (callTool fetch this ''shortcut_create_project'' (Some a)) = [rq] \<and>
              body rq = Some (JSON_stringify (JObj a))"
    and "\<exists>rq. requests_of (callTool fetch this ''shortcut_create_label'' (Some a)) = [rq] \<and>
              body rq = Some (JSON_stringify (JObj a))"
    and "\<exists>rq. requests_of (callTool fetch this ''shortcut_create_iteration'' (Some a)) = [rq] \<and>
              body rq = Some (JSON_stringify (JObj a))"
  using assms(1)
  by (simp_all add: requests_of_callTool callTool_try_def keep_def with_api_Some snd_reply
        handleCreateStory_def handleCreateEpic_def handleCreateProject_def handleCreateLabel_def
        handleCreateIteration_def createStory_def createEpic_def createProject_def
        createLabel_def createIteration_def stringify_args_def snd_makeRequest [OF assms(2)])

lemma search_request:
  assumes "shortcutAPI this = Some api" and "ToString_json (api_baseUrl api) = Some base"
      and "get_prop a ''query'' = None" and "\<forall>(k, v) \<in> set a. ToString_json v \<noteq> None"
  shows "\<exists>rq d. requests_of (callTool fetch this ''shortcut_search'' (Some a)) = [rq] \<and>
                url rq = base @ ''/search?query=undefined&detail='' @ d"
proof -
  from detail_converts [OF assms(4)] obtain d where
    d: "ToString (case get_prop a ''detail'' of None \<Rightarrow> Some (JStr ''full'') | Some d \<Rightarrow> Some d) = Some d"
    by blast
  have e: "encodeURIComponent ''undefined'' = ''undefined''" by code_simp
  have "snd (search fetch api None
               (case get_prop a ''detail'' of None \<Rightarrow> Some (JStr ''full'') | Some d \<Rightarrow> Some d)) =
        snd (makeRequest fetch api (''/search?query=undefined&detail='' @ d) no_options)"
    using d by (cases "get_prop a ''detail''") (simp_all add: search_def ToString_def e)
  then show ?thesis
    using assms(1,3)
    by (simp add: requests_of_callTool callTool_try_def keep_def with_api_Some snd_reply
          handleSearch_def snd_makeRequest [OF assms(2)])
qed

lemma configure_request:
  assumes "\<forall>(k, v) \<in> set a. ToString_json v \<noteq> None"
  shows "\<exists>rq. requests_of (callTool fetch this ''shortcut_configure'' (Some a)) = [rq] \<and>
              headers rq = [(''Content-Type'', Some (JStr ''application/json'')),
                            (''Shortcut-Token'', get_prop a ''apiToken'')]"
proof -
  let ?api = "new_ShortcutAPI \<lparr>apiToken = get_prop a ''apiToken'', baseUrl = get_prop a ''baseUrl''\<rparr>"
  from new_client_base [OF assms] obtain b where b: "ToString_json (api_baseUrl ?api) = Some b"
    by blast
  have t: "apiToken (config ?api) = get_prop a ''apiToken''" by (simp add: new_ShortcutAPI_def)
  show ?thesis
    by (simp add: requests_of_callTool callTool_try_def snd_handleConfigure getCurrentMember_def
          snd_makeRequest [OF b] t)
qed

text \<open>
  C10.  No handler checks the argument object against the input schema.  For every tool
  of the catalog and every field its schema lists as required, a call in the Configured
  state whose argument object lacks that field is not refused locally: exactly one request
  is issued.  Where the missing field is the identifier, the URL path ends in
  \<^verbatim>\<open>undefined\<close>; for \<^verbatim>\<open>shortcut_get_story\<close> the request is a GET of
  \<^verbatim>\<open>/stories/undefined\<close>.  The client's base URL and the values of the argument object
  are values that convert to strings.
\<close>

theorem required_fields_not_checked:
  assumes "(N, required) \<in> set tools" and "f \<in> set required"
      and "get_prop a f = None"
      and "shortcutAPI this = Some api"
      and "ToString_json (api_baseUrl api) = Some base"
      and "\<forall>(k, v) \<in> set a. ToString_json v \<noteq> None"
  shows "\<exists>rq. requests_of (callTool fetch this N (Some a)) = [rq] \<and>
              (f = ''id'' \<longrightarrow> (\<exists>p. url rq = base @ p @ ''undefined'')) \<and>
              (N = ''shortcut_get_story'' \<longrightarrow>
                 rq = \<lparr>url = base @ ''/stories/undefined'', http_method = ''GET'',
                       headers = [(''Content-Type'', Some (JStr ''application/json'')),
                                  (''Shortcut-Token'', apiToken (config api))],
                       body = None\<rparr>)"
proof -
  note ids = by_id_requests [OF assms(4,5), of a fetch]
  note bodies = body_requests [OF assms(4,5), of fetch a]
  from assms(1,2) consider
      "N = ''shortcut_configure''"
    | "N = ''shortcut_get_story''" "f = ''id''"
    | "N = ''shortcut_update_story''" "f = ''id''"
    | "N = ''shortcut_delete_story''" "f = ''id''"
    | "N = ''shortcut_get_epic''" "f = ''id''"
    | "N = ''shortcut_update_epic''" "f = ''id''"
    | "N = ''shortcut_get_project''" "f = ''id''"
    | "N = ''shortcut_get_iteration''" "f = ''id''"
    | "N = ''shortcut_search''" "f = ''query''"
    | "N \<in> {''shortcut_create_story'', ''shortcut_create_epic'', ''shortcut_create_project'',
             ''shortcut_create_label'', ''shortcut_create_iteration''}" "f \<noteq> ''id''"
    by (auto simp: tools_def)
  then show ?thesis
  proof cases
    case 1
    from configure_request [OF assms(6), of fetch this] obtain rq where
      "requests_of (callTool fetch this ''shortcut_configure'' (Some a)) = [rq]" by blast
    moreover from assms(1,2) 1 have "f = ''apiToken''" by (auto simp: tools_def)
    ultimately show ?thesis using 1 by simp
  next
    case 2
    with assms(3) ids(1) show ?thesis by simp
  next
    case 3
    with assms(3) ids(2) show ?thesis by auto
  next
    case 4
    with assms(3) ids(3) show ?thesis by auto
  next
    case 5
    with assms(3) ids(4) show ?thesis by auto
  next
    case 6
    with assms(3) ids(5) show ?thesis by auto
  next
    case 7
    with assms(3) ids(6) show ?thesis by auto
  next
    case 8
    with assms(3) ids(7) show ?thesis by auto
  next
    case 9
    with search_request [OF assms(4,5) _ assms(6), of fetch] assms(3) show ?thesis by auto
  next
    case 10
    with bodies show ?thesis by auto
  qed
qed

theorem required_fields_not_checked_witness:
  "(''shortcut_get_story'', [''id'']) \<in> set tools \<and>
   get_prop [(''verbose'', JBool True)] ''id'' = None \<and>
   shortcutAPI configured = Some sample_client \<and>
   requests_of (callTool remote_member configured ''shortcut_get_story''
                  (Some [(''verbose'', JBool True)])) =
     [\<lparr>url = ''https://api.app.shortcut.com/api/v3/stories/undefined'', http_method = ''GET'',
       headers = [(''Content-Type'', Some (JStr ''application/json'')),
                  (''Shortcut-Token'', Some (JStr ''token''))],
       body = None\<rparr>]"
proof -
  have h1: "(''shortcut_get_story'', [''id'']) \<in> set tools" by (simp add: tools_def)
  have h2: "''id'' \<in> set [''id'']" by simp
  have h3: "get_prop [(''verbose'', JBool True)] ''id'' = None" by (simp add: get_prop_def)
  have h4: "shortcutAPI configured = Some sample_client" by (simp add: configured_def)
  have h5: "ToString_json (api_baseUrl sample_client) = Some ''https://api.app.shortcut.com/api/v3''"
    by (simp add: sample_client_def new_ShortcutAPI_def default_baseUrl_def)
  have h6: "\<forall>(k, v) \<in> set [(''verbose'', JBool True)]. ToString_json v \<noteq> None" by simp
  have t: "apiToken (config sample_client) = Some (JStr ''token'')"
    by (simp add: sample_client_def new_ShortcutAPI_def)
  from required_fields_not_checked [OF h1 h2 h3 h4 h5 h6, of remote_member] h1 h3 h4 t
  show ?thesis by auto
qed

end
